theory Spec2Isabelle
  imports Main
begin

section \<open>Daily tasks: carry-forward, completion and status display\<close>

text \<open>
  A shallow embedding of the task page (component \<open>Tasks\<close>), the task card
  (component \<open>TaskCard\<close>, function \<open>handleComplete\<close>) and the timezone helpers
  (\<open>utils/timezone.ts\<close>).

  Conventions of the embedding:
  \<^item> an instant (an ISO timestamp of the store, a luxon \<open>ts\<close>) is an \<open>int\<close>: milliseconds
    since 1970-01-01T00:00:00Z;
  \<^item> a calendar date (a \<open>yyyy-MM-dd\<close> string, the \<open>task_date\<close> column) is an \<open>int\<close>:
    days since 1970-01-01; the order of the store's \<open>.lt\<close> filter on dates is the order
    of these numbers;
  \<^item> a time zone identifier is a \<open>string\<close>; the IANA rules behind it (which the browser
    supplies) are a parameter \<open>rules\<close>, from which \<open>offset_at\<close> reads the UTC offset in
    minutes of a zone at an instant, as luxon's \<open>zone.offset(ts)\<close>;
  \<^item> the \<open>tasks\<close> table is the list of its rows; \<open>.update(p).eq("id", i)\<close> patches
    every row whose id is \<open>i\<close>.
\<close>

subsection \<open>Numbers in template strings\<close>

definition digit_char :: "int \<Rightarrow> char" where
  "digit_char d =
     (if d = 0 then CHR ''0'' else if d = 1 then CHR ''1'' else if d = 2 then CHR ''2''
      else if d = 3 then CHR ''3'' else if d = 4 then CHR ''4'' else if d = 5 then CHR ''5''
      else if d = 6 then CHR ''6'' else if d = 7 then CHR ''7'' else if d = 8 then CHR ''8''
      else CHR ''9'')"

function show_digits :: "int \<Rightarrow> string" where
  "show_digits n =
     (if n < 10 then [digit_char n] else show_digits (n div 10) @ [digit_char (n mod 10)])"
  by pat_completeness auto
termination
  by (relation "measure nat") auto

declare show_digits.simps [simp del]

text \<open>A JavaScript integer inside a template literal: decimal digits, with a minus sign
  when negative.\<close>

definition show_int :: "int \<Rightarrow> string" where
  "show_int i = (if i < 0 then CHR ''-'' # show_digits (- i) else show_digits i)"

subsection \<open>The task row\<close>

text \<open>Interface \<open>Task\<close> of the page, with the \<open>user_id\<close> column the queries filter on.
  The field \<open>id\<close> is named \<open>id_task\<close> here (\<open>id\<close> is the identity function of HOL).\<close>

record Task =
  id_task :: string
  user_id :: string
  title :: string
  description :: "string option"
  start_time :: int
  end_time :: "int option"
  total_time_minutes :: "int option"
  status :: string
  image_path :: "string option"
  consecutive_missed_days :: int
  task_date :: int
  original_date :: int

subsection \<open>Status display: \<open>getTaskStatusInfo\<close>\<close>

datatype badgeVariant = Default | Destructive | Secondary | Outline

record statusInfo =
  bgClass :: string
  textClass :: string
  badge :: badgeVariant
  label :: string

definition getTaskStatusInfo :: "Task \<Rightarrow> statusInfo" where
  "getTaskStatusInfo task =
    (if status task = ''completed'' then
       \<lparr> bgClass = ''bg-valid-bg border-valid/30'',
         textClass = ''text-valid-foreground'',
         badge = Default,
         label = ''Completed'' \<rparr>
     else if consecutive_missed_days task \<ge> 3 then
       \<lparr> bgClass = ''bg-expired-bg border-expired/30'',
         textClass = ''text-expired-foreground'',
         badge = Destructive,
         label = ''Overdue '' @ show_int (consecutive_missed_days task) @ '' days'' \<rparr>
     else if consecutive_missed_days task > 0 then
       \<lparr> bgClass = ''bg-expiring-bg border-expiring/30'',
         textClass = ''text-expiring-foreground'',
         badge = Secondary,
         label = ''Carried '' @ show_int (consecutive_missed_days task) @ '' day''
                 @ (if consecutive_missed_days task > 1 then ''s'' else '''') \<rparr>
     else
       \<lparr> bgClass = ''bg-card border-border/80'',
         textClass = ''text-foreground'',
         badge = Outline,
         label = ''Pending'' \<rparr>)"

subsection \<open>Errors\<close>

text \<open>What the source throws or receives as an error object: \<open>Error("Not authenticated")\<close>,
  the error of a store query or update, the error of the storage upload, and the
  validation error of the duration computation.\<close>

datatype error =
    NotAuthenticated
  | PersistenceError string
  | UploadError string
  | ValidationError string

subsection \<open>Time zones and the luxon operations the source calls\<close>

definition ms_per_day :: int where
  "ms_per_day = 86400000"

definition ms_per_minute :: int where
  "ms_per_minute = 60000"

text \<open>
  The rules of one zone: its smallest UTC offset in minutes, and for every instant how
  many minutes more than that are in effect (the summer time shift, or a change of the
  zone's standard time). In the tz database the offsets of one zone lie within 24 hours
  of each other (the largest changes are those of the date line), and \<open>offset_at\<close>,
  luxon's \<open>zone.offset(ts)\<close>, reads the extra minutes between 0 and 1440.
\<close>

record zone =
  least_offset :: int
  extra_minutes :: "int \<Rightarrow> int"

type_synonym zone_rules = "string \<Rightarrow> zone"

definition offset_at :: "zone_rules \<Rightarrow> string \<Rightarrow> int \<Rightarrow> int" where
  "offset_at rules z ts =
     least_offset (rules z) + max 0 (min 1440 (extra_minutes (rules z) ts))"

text \<open>
  A luxon \<open>DateTime\<close>: its instant \<open>ts\<close>, the offset \<open>o\<close> luxon keeps with it, and its
  zone. The local fields are read from \<open>ts + o\<close> minutes.
\<close>

record DateTime =
  dt_ts :: int
  dt_offset :: int
  dt_zone :: string

definition local_ts :: "DateTime \<Rightarrow> int" where
  "local_ts dt = dt_ts dt + dt_offset dt * ms_per_minute"

text \<open>\<open>DateTime.now().setZone(z)\<close> and \<open>DateTime.fromISO(iso, {zone: 'UTC'}).setZone(z)\<close>:
  the instant \<open>ts\<close> in zone \<open>z\<close>.\<close>

definition setZone :: "zone_rules \<Rightarrow> int \<Rightarrow> string \<Rightarrow> DateTime" where
  "setZone rules ts z = \<lparr> dt_ts = ts, dt_offset = offset_at rules z ts, dt_zone = z \<rparr>"

text \<open>
  Luxon resolves a local time to an instant and an offset from a first guess \<open>o1\<close> of
  the offset: when the zone has offset \<open>o1\<close> at the guessed instant, that is the
  answer; otherwise it tries the offset found there; when this fails too the local time
  does not exist in the zone (the clocks skip it), and luxon answers with the smaller of
  the two offsets for the instant and the larger as the offset kept: the local time is
  moved forward by the skipped span.
\<close>

definition fixOffset :: "zone_rules \<Rightarrow> string \<Rightarrow> int \<Rightarrow> int \<Rightarrow> int \<times> int" where
  "fixOffset rules z local o1 =
     (let utcGuess = local - o1 * ms_per_minute;
          o2 = offset_at rules z utcGuess
      in if o1 = o2 then (utcGuess, o1)
         else
           let utcGuess2 = utcGuess - (o2 - o1) * ms_per_minute;
               o3 = offset_at rules z utcGuess2
           in if o2 = o3 then (utcGuess2, o2)
              else (local - min o2 o3 * ms_per_minute, max o2 o3))"

text \<open>The \<open>DateTime\<close> of local fields (luxon's \<open>objToTS\<close>), given as the local time
  in milliseconds, with first guess \<open>o1\<close>.\<close>

definition objToTS :: "zone_rules \<Rightarrow> string \<Rightarrow> int \<Rightarrow> int \<Rightarrow> DateTime" where
  "objToTS rules z local o1 =
     \<lparr> dt_ts = fst (fixOffset rules z local o1),
       dt_offset = snd (fixOffset rules z local o1),
       dt_zone = z \<rparr>"

text \<open>\<open>dt.startOf('day')\<close>: the local fields of \<open>dt\<close> with the time set to 00:00:00.000,
  resolved with the offset of \<open>dt\<close> as first guess.\<close>

definition startOf_day :: "zone_rules \<Rightarrow> DateTime \<Rightarrow> DateTime" where
  "startOf_day rules dt =
     objToTS rules (dt_zone dt) (local_ts dt div ms_per_day * ms_per_day) (dt_offset dt)"

text \<open>\<open>dt.toFormat('yyyy-MM-dd')\<close>: the local calendar date.\<close>

definition toFormat_date :: "DateTime \<Rightarrow> int" where
  "toFormat_date dt = local_ts dt div ms_per_day"

text \<open>\<open>dt.toFormat('HH:mm:ss')\<close>: the local time of day in whole seconds since midnight
  (the format drops the milliseconds).\<close>

definition toFormat_time :: "DateTime \<Rightarrow> int" where
  "toFormat_time dt = local_ts dt mod ms_per_day div 1000"

text \<open>\<open>DateTime.fromISO(date, {zone: z})\<close> for a date without a time: local midnight of
  that date, resolved with the zone's offset at the current time \<open>now\<close> as first guess.\<close>

definition fromISO_date :: "zone_rules \<Rightarrow> int \<Rightarrow> int \<Rightarrow> string \<Rightarrow> DateTime" where
  "fromISO_date rules now d z = objToTS rules z (d * ms_per_day) (offset_at rules z now)"

text \<open>\<open>DateTime.fromFormat(`${date} ${time}`, 'yyyy-MM-dd HH:mm:ss', {zone: z})\<close>\<close>

definition fromFormat_date_time ::
  "zone_rules \<Rightarrow> int \<Rightarrow> int \<Rightarrow> int \<Rightarrow> string \<Rightarrow> DateTime" where
  "fromFormat_date_time rules now d secs z =
     objToTS rules z (d * ms_per_day + secs * 1000) (offset_at rules z now)"

text \<open>\<open>dt.toUTC().toISO()\<close>: the instant.\<close>

definition toUTC :: "DateTime \<Rightarrow> int" where
  "toUTC dt = dt_ts dt"

text \<open>
  \<open>Math.floor(a.diff(b, 'days').days)\<close> for two \<open>DateTime\<close>s of one zone. Luxon counts
  days on the local calendar: the whole days are the largest \<open>n\<close> for which \<open>b\<close> moved
  \<open>n\<close> calendar days on, at its own local time of day, is not after \<open>a\<close>, and what is
  left is a fraction of a day; \<open>Math.floor\<close> rounds down. In local fields this is the
  difference of the calendar dates, less one when the local time of day of \<open>a\<close> is
  before that of \<open>b\<close>. (The model takes the moved \<open>b\<close> to keep its local time of day,
  as luxon does unless that time of day is itself skipped or repeated on the day it
  lands on.)
\<close>

definition diff_days_floor :: "DateTime \<Rightarrow> DateTime \<Rightarrow> int" where
  "diff_days_floor a b = (local_ts a - local_ts b) div ms_per_day"

subsection \<open>\<open>utils/timezone.ts\<close>\<close>

text \<open>\<open>profileTimezone || 'UTC'\<close>: null, undefined and the empty string give \<open>'UTC'\<close>.\<close>

definition getUserTimezone :: "string option \<Rightarrow> string" where
  "getUserTimezone profileTimezone =
     (case profileTimezone of
        None \<Rightarrow> ''UTC''
      | Some tz \<Rightarrow> if tz = [] then ''UTC'' else tz)"

text \<open>The value of a \<open>datetime-local\<close> input, \<open>yyyy-MM-ddTHH:mm\<close>: a date and the minutes
  since midnight.\<close>

record localInput =
  input_date :: int
  input_minutes :: int

definition localToUtcISO :: "zone_rules \<Rightarrow> int \<Rightarrow> localInput \<Rightarrow> string \<Rightarrow> int" where
  "localToUtcISO rules now li timezone =
     toUTC (objToTS rules timezone
              (input_date li * ms_per_day + input_minutes li * ms_per_minute)
              (offset_at rules timezone now))"

definition startOfTodayInZone :: "zone_rules \<Rightarrow> int \<Rightarrow> string \<Rightarrow> DateTime" where
  "startOfTodayInZone rules now timezone = startOf_day rules (setZone rules now timezone)"

subsection \<open>The backend\<close>

text \<open>
  What the components read from outside: the signed-in user, the \<open>timezone\<close> column of
  that user's profile, the clock, the zone rules, and whether a query on \<open>tasks\<close>, the
  storage upload or the completion update answers with an error. The clock is read once
  for a whole operation.
\<close>

record backend =
  auth_user :: "string option"
  profile_timezone :: "string option"
  clock :: int
  zone_offset :: zone_rules
  select_error :: "error option"
  upload_error :: "error option"
  update_error :: "error option"

text \<open>The object given to \<open>.update({...})\<close>: a column that is not a key of the object
  is \<open>None\<close>.\<close>

record TaskUpdate =
  set_task_date :: "int option"
  set_start_time :: "int option"
  set_consecutive_missed_days :: "int option"
  set_status :: "string option"
  set_end_time :: "int option option"
  set_total_time_minutes :: "int option option"
  set_image_path :: "string option option"

definition apply_update :: "TaskUpdate \<Rightarrow> Task \<Rightarrow> Task" where
  "apply_update u t =
     t \<lparr> task_date := (case set_task_date u of None \<Rightarrow> task_date t | Some v \<Rightarrow> v),
         start_time := (case set_start_time u of None \<Rightarrow> start_time t | Some v \<Rightarrow> v),
         consecutive_missed_days :=
           (case set_consecutive_missed_days u of
              None \<Rightarrow> consecutive_missed_days t | Some v \<Rightarrow> v),
         status := (case set_status u of None \<Rightarrow> status t | Some v \<Rightarrow> v),
         end_time := (case set_end_time u of None \<Rightarrow> end_time t | Some v \<Rightarrow> v),
         total_time_minutes :=
           (case set_total_time_minutes u of None \<Rightarrow> total_time_minutes t | Some v \<Rightarrow> v),
         image_path := (case set_image_path u of None \<Rightarrow> image_path t | Some v \<Rightarrow> v) \<rparr>"

text \<open>\<open>supabase.from("tasks").update(u).eq("id", i)\<close>\<close>

definition update_eq_id :: "TaskUpdate \<Rightarrow> string \<Rightarrow> Task list \<Rightarrow> Task list" where
  "update_eq_id u i rows = map (\<lambda>t. if id_task t = i then apply_update u t else t) rows"

subsection \<open>The page: \<open>carryForwardTasks\<close>\<close>

text \<open>The three constants computed for one task inside \<open>pendingTasks.map\<close>.\<close>

definition daysMissed :: "backend \<Rightarrow> DateTime \<Rightarrow> string \<Rightarrow> Task \<Rightarrow> int" where
  "daysMissed env todayStart userTimezone task =
     diff_days_floor todayStart
       (fromISO_date (zone_offset env) (clock env) (task_date task) userTimezone)"

definition timeOfDay :: "backend \<Rightarrow> string \<Rightarrow> Task \<Rightarrow> int" where
  "timeOfDay env userTimezone task =
     toFormat_time (setZone (zone_offset env) (start_time task) userTimezone)"

definition newStartTimeUtc :: "backend \<Rightarrow> string \<Rightarrow> int \<Rightarrow> Task \<Rightarrow> int" where
  "newStartTimeUtc env userTimezone today task =
     toUTC (fromFormat_date_time (zone_offset env) (clock env) today
              (timeOfDay env userTimezone task) userTimezone)"

text \<open>The update object of one task. \<open>task.consecutive_missed_days || 0\<close> is the count
  itself for every number.\<close>

definition rollover :: "backend \<Rightarrow> string \<Rightarrow> DateTime \<Rightarrow> int \<Rightarrow> Task \<Rightarrow> TaskUpdate" where
  "rollover env userTimezone todayStart today task =
     \<lparr> set_task_date = Some today,
       set_start_time = Some (newStartTimeUtc env userTimezone today task),
       set_consecutive_missed_days =
         Some ((if consecutive_missed_days task = 0 then 0 else consecutive_missed_days task)
               + daysMissed env todayStart userTimezone task),
       set_status = None,
       set_end_time = None,
       set_total_time_minutes = None,
       set_image_path = None \<rparr>"

text \<open>The rows the select returns: the user's pending tasks dated before today.\<close>

definition pendingTasks :: "string \<Rightarrow> int \<Rightarrow> Task list \<Rightarrow> Task list" where
  "pendingTasks user today rows =
     filter (\<lambda>t. user_id t = user \<and> status t = ''pending'' \<and> task_date t < today) rows"

text \<open>
  \<open>carryForwardTasks\<close>, as a function of the binding \<open>userTimezone\<close> it reads and of the
  table. It returns the table and the error it logged, if any. The updates are sent
  together (\<open>Promise.all\<close>) and their results are not inspected; the table applies each
  of them, here in the order of the list.
\<close>

definition carryForwardTasks :: "backend \<Rightarrow> string \<Rightarrow> Task list \<Rightarrow> Task list \<times> error option" where
  "carryForwardTasks env userTimezone rows =
     (case auth_user env of
        None \<Rightarrow> (rows, None)
      | Some user \<Rightarrow>
          let todayStart = startOfTodayInZone (zone_offset env) (clock env) userTimezone;
              today = toFormat_date todayStart
          in (case select_error env of
                Some fetchError \<Rightarrow> (rows, Some fetchError)
              | None \<Rightarrow>
                  let pending = pendingTasks user today rows
                  in if pending \<noteq> [] then
                       let updates =
                             map (\<lambda>task. (rollover env userTimezone todayStart today task,
                                           id_task task)) pending
                       in (foldl (\<lambda>rs (u, i). update_eq_id u i rs) rows updates, None)
                     else (rows, None)))"

text \<open>\<open>today\<close> as the pass computes it.\<close>

definition today_of :: "backend \<Rightarrow> string \<Rightarrow> int" where
  "today_of env userTimezone =
     toFormat_date (startOfTodayInZone (zone_offset env) (clock env) userTimezone)"

subsection \<open>The page: state, \<open>fetchUserTimezone\<close>, \<open>fetchTasks\<close>, \<open>initializeTasks\<close>\<close>

text \<open>
  \<open>const [userTimezone, setUserTimezone] = useState("UTC")\<close>: a render of the component
  binds \<open>userTimezone\<close> to the value the state cell has at that render, and the functions
  the render defines read this binding. \<open>setUserTimezone\<close> changes the cell; the new
  value is bound by the next render. \<open>fetchUserTimezone\<close> is therefore a function from
  the binding of its render to the value of the cell after it.
\<close>

definition fetchUserTimezone :: "backend \<Rightarrow> string \<Rightarrow> string" where
  "fetchUserTimezone env userTimezone =
     (case auth_user env of
        None \<Rightarrow> userTimezone
      | Some user \<Rightarrow>
          (case profile_timezone env of
             None \<Rightarrow> userTimezone
           | Some tz \<Rightarrow> if tz \<noteq> [] then tz else userTimezone))"

text \<open>\<open>fetchTasks\<close>: the rows given to \<open>setTasks\<close>, or the error shown.\<close>

definition fetchTasks :: "backend \<Rightarrow> string \<Rightarrow> Task list \<Rightarrow> (error + Task list) option" where
  "fetchTasks env userTimezone rows =
     (case auth_user env of
        None \<Rightarrow> None
      | Some user \<Rightarrow>
          let today = toFormat_date (startOfTodayInZone (zone_offset env) (clock env) userTimezone)
          in (case select_error env of
                Some e \<Rightarrow> Some (Inl e)
              | None \<Rightarrow>
                  Some (Inr (sort_key start_time
                    (filter (\<lambda>t. user_id t = user \<and> task_date t = today) rows)))))"

text \<open>
  \<open>initializeTasks\<close> of one render: its three calls are the functions of that same
  render, so all three read the binding \<open>userTimezone\<close> of that render. The result is
  the value of the state cell afterwards, the table, and what \<open>fetchTasks\<close> produced.
\<close>

definition initializeTasks ::
  "backend \<Rightarrow> string \<Rightarrow> Task list \<Rightarrow> string \<times> Task list \<times> (error + Task list) option" where
  "initializeTasks env userTimezone rows =
     (let cell = fetchUserTimezone env userTimezone;
          rows' = fst (carryForwardTasks env userTimezone rows)
      in (cell, rows', fetchTasks env userTimezone rows'))"

text \<open>\<open>useEffect(() => { initializeTasks(); }, [])\<close>: the effect runs once, after the first
  render, whose binding is the initial state \<open>"UTC"\<close>.\<close>

definition mount_Tasks ::
  "backend \<Rightarrow> Task list \<Rightarrow> string \<times> Task list \<times> (error + Task list) option" where
  "mount_Tasks env rows = initializeTasks env ''UTC'' rows"

subsection \<open>\<open>utils/taskDuration\<close>\<close>

text \<open>
  Modelled from the spec: \<open>calculateTaskDuration\<close> (the spec's \<open>computeDuration\<close>) of
  \<open>utils/taskDuration\<close>, which is not among the sources. The spec: minutes = floor of
  the elapsed seconds divided by 60; a completion instant before the start instant fails
  with a ValidationError; the timezone plays no part. The third argument is the timezone
  the call in \<open>handleComplete\<close> passes.
\<close>

definition calculateTaskDuration :: "int \<Rightarrow> int \<Rightarrow> string \<Rightarrow> error + int" where
  "calculateTaskDuration startInstant endInstant timezone =
     (if endInstant < startInstant
      then Inl (ValidationError ''completion time is before start time'')
      else Inr ((endInstant - startInstant) div ms_per_minute))"

text \<open>
  Modelled from the spec: \<open>formatDuration\<close> of \<open>utils/taskDuration\<close>, which is not among
  the sources. The spec: values below 60 render as minutes only; values of 60 and more
  render as hours plus remainder minutes, 75 as \<open>1h 15m\<close>.
\<close>

definition formatDuration :: "int \<Rightarrow> string" where
  "formatDuration minutes =
     (if minutes < 60 then show_int minutes @ ''m''
      else show_int (minutes div 60) @ ''h '' @ show_int (minutes mod 60) @ ''m'')"

subsection \<open>The task card: \<open>handleComplete\<close>\<close>

text \<open>\<open>completionImage.name.split(".").pop()\<close>: what follows the last dot of the name, the
  whole name when it has no dot.\<close>

definition fileExt :: "string \<Rightarrow> string" where
  "fileExt name = rev (takeWhile (\<lambda>c. c \<noteq> CHR ''.'') (rev name))"

text \<open>The upload step: the new \<open>imagePath\<close>, or the error thrown. \<open>completionImage\<close> is
  the name of the chosen file, if one was chosen.\<close>

definition uploadCompletionImage :: "backend \<Rightarrow> Task \<Rightarrow> string option \<Rightarrow> error + string option" where
  "uploadCompletionImage env task completionImage =
     (case completionImage of
        None \<Rightarrow> Inr (image_path task)
      | Some name \<Rightarrow>
          (case auth_user env of
             None \<Rightarrow> Inl NotAuthenticated
           | Some user \<Rightarrow>
               let fileName = user @ ''/'' @ id_task task @ ''-completion-''
                              @ show_int (clock env) @ ''.'' @ fileExt name
               in (case upload_error env of
                     Some uploadError \<Rightarrow> Inl uploadError
                   | None \<Rightarrow> Inr (Some fileName))))"

text \<open>
  \<open>handleComplete\<close> for the card of \<open>task\<close>, with the dialog's \<open>completionTime\<close> and
  \<open>completionImage\<close>. It returns the table and the toast: the error caught, or the
  description of the success toast.
\<close>

definition handleComplete ::
  "backend \<Rightarrow> string \<Rightarrow> Task \<Rightarrow> localInput \<Rightarrow> string option \<Rightarrow> Task list
    \<Rightarrow> Task list \<times> (error + string)" where
  "handleComplete env userTimezone task completionTime completionImage rows =
     (let utcCompletionTime =
            localToUtcISO (zone_offset env) (clock env) completionTime userTimezone
      in case calculateTaskDuration (start_time task) utcCompletionTime userTimezone of
           Inl e \<Rightarrow> (rows, Inl e)
         | Inr durationMinutes \<Rightarrow>
             (case uploadCompletionImage env task completionImage of
                Inl e \<Rightarrow> (rows, Inl e)
              | Inr imagePath \<Rightarrow>
                  (case update_error env of
                     Some e \<Rightarrow> (rows, Inl e)
                   | None \<Rightarrow>
                       (update_eq_id
                          \<lparr> set_task_date = None,
                            set_start_time = None,
                            set_consecutive_missed_days = None,
                            set_status = Some ''completed'',
                            set_end_time = Some (Some utcCompletionTime),
                            set_total_time_minutes = Some (Some durationMinutes),
                            set_image_path = Some imagePath \<rparr>
                          (id_task task) rows,
                        Inr (''Great job! You took '' @ formatDuration durationMinutes @ ''.'')))))"

subsection \<open>Concrete dates, zone rules and tasks for the examples\<close>

text \<open>The day number of a date of the Gregorian calendar.\<close>

definition civil_date :: "int \<Rightarrow> int \<Rightarrow> int \<Rightarrow> int" where
  "civil_date y m d =
     (let y' = (if m \<le> 2 then y - 1 else y);
          era = y' div 400;
          yoe = y' - era * 400;
          doy = (153 * (if m > 2 then m - 3 else m + 9) + 2) div 5 + d - 1;
          doe = yoe * 365 + yoe div 4 - yoe div 100 + doy
      in era * 146097 + doe - 719468)"

text \<open>The instant \<open>y-m-dTh:mi:sZ\<close>.\<close>

definition utc_instant :: "int \<Rightarrow> int \<Rightarrow> int \<Rightarrow> int \<Rightarrow> int \<Rightarrow> int \<Rightarrow> int" where
  "utc_instant y m d h mi s = civil_date y m d * ms_per_day + ((h * 60 + mi) * 60 + s) * 1000"

text \<open>Zone rules for the examples: UTC; Asia/Kolkata, five and a half hours ahead all
  year; Europe/Berlin with its summer time of 2025; America/Santiago with its summer
  time of 2024/25, which began when the clocks went from 24:00 of 2024-09-07 to 01:00 of
  2024-09-08.\<close>

definition sample_rules :: zone_rules where
  "sample_rules z =
     (if z = ''Asia/Kolkata'' then \<lparr> least_offset = 330, extra_minutes = (\<lambda>ts. 0) \<rparr>
      else if z = ''Europe/Berlin'' then
        \<lparr> least_offset = 60,
          extra_minutes =
            (\<lambda>ts. if utc_instant 2025 3 30 1 0 0 \<le> ts \<and> ts < utc_instant 2025 10 26 1 0 0
                  then 60 else 0) \<rparr>
      else if z = ''America/Santiago'' then
        \<lparr> least_offset = - 240,
          extra_minutes =
            (\<lambda>ts. if utc_instant 2024 9 8 4 0 0 \<le> ts \<and> ts < utc_instant 2025 4 6 3 0 0
                  then 60 else 0) \<rparr>
      else \<lparr> least_offset = 0, extra_minutes = (\<lambda>ts. 0) \<rparr>)"

text \<open>
  Scenario A of the specification: a user in Asia/Kolkata, a pending task of 2025-01-10
  that starts at 13:30 UTC (19:00 local time), and a session opened on 2025-01-13 at
  04:00 UTC (09:30 local time).
\<close>

definition scenario_task :: Task where
  "scenario_task =
     \<lparr> id_task = ''task-1'', user_id = ''user-1'', title = ''Evening walk'',
       description = None,
       start_time = utc_instant 2025 1 10 13 30 0, end_time = None,
       total_time_minutes = None, status = ''pending'', image_path = None,
       consecutive_missed_days = 0,
       task_date = civil_date 2025 1 10, original_date = civil_date 2025 1 10 \<rparr>"

definition scenario_backend :: backend where
  "scenario_backend =
     \<lparr> auth_user = Some ''user-1'', profile_timezone = Some ''Asia/Kolkata'',
       clock = utc_instant 2025 1 13 4 0 0, zone_offset = sample_rules,
       select_error = None, upload_error = None, update_error = None \<rparr>"

text \<open>The same user opening the page at 20:00 UTC of 2025-01-13, which is 01:30 of
  2025-01-14 in Asia/Kolkata.\<close>

definition late_backend :: backend where
  "late_backend = scenario_backend \<lparr> clock := utc_instant 2025 1 13 20 0 0 \<rparr>"

text \<open>A table with the task of scenario A, a task already dated today, a completed task
  of an earlier day, and an overdue task of another user.\<close>

definition scenario_rows :: "Task list" where
  "scenario_rows =
     [ scenario_task,
       scenario_task \<lparr> id_task := ''task-2'', title := ''Stretch'',
                       start_time := utc_instant 2025 1 13 2 0 0,
                       task_date := civil_date 2025 1 13,
                       original_date := civil_date 2025 1 12,
                       consecutive_missed_days := 1 \<rparr>,
       scenario_task \<lparr> id_task := ''task-3'', title := ''Laundry'',
                       status := ''completed'',
                       end_time := Some (utc_instant 2025 1 10 15 0 0),
                       total_time_minutes := Some 90,
                       consecutive_missed_days := 2 \<rparr>,
       scenario_task \<lparr> id_task := ''task-4'', user_id := ''user-2'' \<rparr> ]"

text \<open>A user in Europe/Berlin: a pending task of 2025-10-20 at 19:00 local summer time
  (17:00 UTC), and a session opened on 2025-10-26 at 00:30 local time (2025-10-25 at
  22:30 UTC), the day summer time ends, before the clocks go back.\<close>

definition berlin_task :: Task where
  "berlin_task =
     scenario_task \<lparr> id_task := ''task-5'', user_id := ''user-3'',
                     start_time := utc_instant 2025 10 20 17 0 0,
                     task_date := civil_date 2025 10 20,
                     original_date := civil_date 2025 10 20 \<rparr>"

definition berlin_backend :: backend where
  "berlin_backend =
     \<lparr> auth_user = Some ''user-3'', profile_timezone = Some ''Europe/Berlin'',
       clock = utc_instant 2025 10 25 22 30 0, zone_offset = sample_rules,
       select_error = None, upload_error = None, update_error = None \<rparr>"



text \<open>The user in Europe/Berlin with a pending task of 2025-03-28 at 02:30 local time
  (01:30 UTC), and a session opened at noon of 2025-03-30, the day on which the clocks go
  from 02:00 to 03:00.\<close>

definition skipped_task :: Task where
  "skipped_task =
     berlin_task \<lparr> id_task := ''task-7'',
                   start_time := utc_instant 2025 3 28 1 30 0,
                   task_date := civil_date 2025 3 28,
                   original_date := civil_date 2025 3 28 \<rparr>"

definition skipped_backend :: backend where
  "skipped_backend = berlin_backend \<lparr> clock := utc_instant 2025 3 30 10 0 0 \<rparr>"

section \<open>Properties\<close>

subsection \<open>Updates of the table\<close>

lemma id_task_apply_update: "id_task (apply_update u t) = id_task t"
  by (simp add: apply_update_def)

lemma length_update_eq_id: "length (update_eq_id u i rows) = length rows"
  by (simp add: update_eq_id_def)

lemma foldl_updates_find:
  "distinct (map id_task ts) \<Longrightarrow>
   foldl (\<lambda>rs (u, i). update_eq_id u i rs) rows (map (\<lambda>t. (f t, id_task t)) ts)
   = map (\<lambda>r. case find (\<lambda>t. id_task t = id_task r) ts of
                 None \<Rightarrow> r | Some t \<Rightarrow> apply_update (f t) r) rows"
proof (induction ts arbitrary: rows)
  case Nil
  then show ?case by simp
next
  case (Cons t ts)
  have notin: "find (\<lambda>x. id_task x = id_task t) ts = None"
    using Cons.prems by (auto simp: find_None_iff image_iff)
  have "foldl (\<lambda>rs (u, i). update_eq_id u i rs) rows (map (\<lambda>t. (f t, id_task t)) (t # ts))
        = foldl (\<lambda>rs (u, i). update_eq_id u i rs) (update_eq_id (f t) (id_task t) rows)
            (map (\<lambda>t. (f t, id_task t)) ts)"
    by simp
  also have "\<dots> = map (\<lambda>r. case find (\<lambda>t. id_task t = id_task r) ts of
                 None \<Rightarrow> r | Some t \<Rightarrow> apply_update (f t) r) (update_eq_id (f t) (id_task t) rows)"
    using Cons.IH Cons.prems by simp
  also have "\<dots> = map (\<lambda>r. case find (\<lambda>x. id_task x = id_task r) (t # ts) of
                 None \<Rightarrow> r | Some t \<Rightarrow> apply_update (f t) r) rows"
    using notin by (auto simp: update_eq_id_def id_task_apply_update)
  finally show ?case .
qed

lemma find_filter_distinct:
  assumes "distinct (map id_task rows)" and "r \<in> set rows"
  shows "find (\<lambda>t. id_task t = id_task r) (filter P rows) = (if P r then Some r else None)"
proof (cases "P r")
  case True
  have "\<exists>x. find (\<lambda>t. id_task t = id_task r) (filter P rows) = Some x"
    using True assms(2) by (cases "find (\<lambda>t. id_task t = id_task r) (filter P rows)") (auto simp: find_None_iff)
  then obtain x where x: "find (\<lambda>t. id_task t = id_task r) (filter P rows) = Some x" by blast
  then have "x \<in> set rows" "id_task x = id_task r"
    by (auto simp: find_Some_iff dest: nth_mem)
  then have "x = r"
    using assms by (meson distinct_map inj_onD)
  with x True show ?thesis by simp
next
  case False
  have "find (\<lambda>t. id_task t = id_task r) (filter P rows) = None"
  proof -
    have "\<And>x. x \<in> set rows \<Longrightarrow> id_task x = id_task r \<Longrightarrow> x = r"
      using assms by (meson distinct_map inj_onD)
    then show ?thesis using False by (auto simp: find_None_iff)
  qed
  with False show ?thesis by simp
qed

lemma foldl_updates_filter:
  assumes "distinct (map id_task rows)"
  shows "foldl (\<lambda>rs (u, i). update_eq_id u i rs) rows (map (\<lambda>t. (f t, id_task t)) (filter P rows))
         = map (\<lambda>r. if P r then apply_update (f r) r else r) rows"
proof -
  have d: "distinct (map id_task (filter P rows))"
    using assms by (simp add: distinct_map_filter)
  show ?thesis
    unfolding foldl_updates_find [OF d]
    by (rule map_cong) (simp_all add: find_filter_distinct [OF assms])
qed

lemma apply_rollover:
  "apply_update (rollover env tz ts today t) t
   = t \<lparr> task_date := today,
         start_time := newStartTimeUtc env tz today t,
         consecutive_missed_days := consecutive_missed_days t + daysMissed env ts tz t \<rparr>"
  by (simp add: apply_update_def rollover_def)

lemma carryForwardTasks_map:
  assumes "distinct (map id_task rows)" and "auth_user env = Some user"
    and "select_error env = None"
  shows "fst (carryForwardTasks env tz rows)
         = map (\<lambda>r. if user_id r = user \<and> status r = ''pending'' \<and> task_date r < today_of env tz
                     then r \<lparr> task_date := today_of env tz,
                              start_time := newStartTimeUtc env tz (today_of env tz) r,
                              consecutive_missed_days :=
                                consecutive_missed_days r
                                + daysMissed env (startOfTodayInZone (zone_offset env) (clock env) tz) tz r \<rparr>
                     else r) rows"
proof (cases "pendingTasks user (today_of env tz) rows = []")
  case True
  then have "\<forall>r \<in> set rows. \<not> (user_id r = user \<and> status r = ''pending'' \<and> task_date r < today_of env tz)"
    by (auto simp: pendingTasks_def filter_empty_conv)
  then have "map (\<lambda>r. if user_id r = user \<and> status r = ''pending'' \<and> task_date r < today_of env tz
                     then r \<lparr> task_date := today_of env tz,
                              start_time := newStartTimeUtc env tz (today_of env tz) r,
                              consecutive_missed_days :=
                                consecutive_missed_days r
                                + daysMissed env (startOfTodayInZone (zone_offset env) (clock env) tz) tz r \<rparr>
                     else r) rows = map (\<lambda>r. r) rows"
    by (intro map_cong) auto
  with True assms show ?thesis
    by (simp add: carryForwardTasks_def today_of_def Let_def)
next
  case False
  with assms show ?thesis
    by (simp add: carryForwardTasks_def today_of_def Let_def pendingTasks_def
        foldl_updates_filter apply_rollover)
qed

lemma length_carryForwardTasks: "length (fst (carryForwardTasks env tz rows)) = length rows"
proof -
  have "length (foldl (\<lambda>rs (u, i). update_eq_id u i rs) rows us) = length rows" for us
    by (induction us arbitrary: rows) (auto simp: length_update_eq_id)
  then show ?thesis
    by (auto simp: carryForwardTasks_def Let_def split: option.splits)
qed

lemma pendingTasks_after_pass:
  assumes "distinct (map id_task rows)" and "auth_user env = Some user"
    and "select_error env = None"
  shows "pendingTasks user (today_of env tz) (fst (carryForwardTasks env tz rows)) = []"
proof -
  define f where "f = (\<lambda>r. if user_id r = user \<and> status r = ''pending'' \<and> task_date r < today_of env tz
                     then r \<lparr> task_date := today_of env tz,
                              start_time := newStartTimeUtc env tz (today_of env tz) r,
                              consecutive_missed_days :=
                                consecutive_missed_days r
                                + daysMissed env (startOfTodayInZone (zone_offset env) (clock env) tz) tz r \<rparr>
                     else r)"
  have m: "fst (carryForwardTasks env tz rows) = map f rows"
    unfolding f_def by (rule carryForwardTasks_map [OF assms])
  have "\<not> (user_id (f r) = user \<and> status (f r) = ''pending'' \<and> task_date (f r) < today_of env tz)"
    for r
    by (simp add: f_def)
  then show ?thesis
    by (simp add: m pendingTasks_def filter_empty_conv)
qed

lemma carryForwardTasks_no_pending:
  assumes "\<And>user. auth_user env = Some user \<Longrightarrow> pendingTasks user (today_of env tz) rows = []"
  shows "fst (carryForwardTasks env tz rows) = rows"
  using assms
  by (auto simp: carryForwardTasks_def today_of_def Let_def split: option.splits)

lemma carryForwardTasks_cases:
  assumes "distinct (map id_task rows)"
  shows "fst (carryForwardTasks env tz rows) = rows
       \<or> (\<exists>user. fst (carryForwardTasks env tz rows)
           = map (\<lambda>r. if user_id r = user \<and> status r = ''pending'' \<and> task_date r < today_of env tz
                     then r \<lparr> task_date := today_of env tz,
                              start_time := newStartTimeUtc env tz (today_of env tz) r,
                              consecutive_missed_days :=
                                consecutive_missed_days r
                                + daysMissed env (startOfTodayInZone (zone_offset env) (clock env) tz) tz r \<rparr>
                     else r) rows)"
proof (cases "auth_user env")
  case None
  then show ?thesis by (simp add: carryForwardTasks_def)
next
  case (Some user)
  show ?thesis
  proof (cases "select_error env")
    case None
    from carryForwardTasks_map [OF assms Some None] show ?thesis by blast
  next
    case (Some e)
    then show ?thesis
      by (simp add: carryForwardTasks_def Let_def split: option.splits)
  qed
qed

lemma carryForwardTasks_row:
  assumes "distinct (map id_task rows)" and "i < length rows" 
  shows "(fst (carryForwardTasks env tz rows) ! i = rows ! i
              \<or> fst (carryForwardTasks env tz rows) ! i
                 = (rows ! i)
                     \<lparr> task_date := today_of env tz,
                       start_time := newStartTimeUtc env tz (today_of env tz) (rows ! i),
                       consecutive_missed_days :=
                         consecutive_missed_days (rows ! i)
                         + daysMissed env (startOfTodayInZone (zone_offset env) (clock env) tz)
                             tz (rows ! i) \<rparr>)" 
  using carryForwardTasks_cases [OF assms(1), of env tz] assms(2)
  by (elim disjE exE) simp_all

subsection \<open>Resolved local times and the day count\<close>

lemma offset_at_span: "offset_at rules z u - offset_at rules z v \<le> 1440"
  by (simp add: offset_at_def)

lemma fixOffset_local:
  "local \<le> fst (fixOffset rules z local o1) + snd (fixOffset rules z local o1) * ms_per_minute
   \<and> fst (fixOffset rules z local o1) + snd (fixOffset rules z local o1) * ms_per_minute
       \<le> local + ms_per_day"
proof -
  define o2 where "o2 = offset_at rules z (local - o1 * ms_per_minute)"
  define o3 where "o3 = offset_at rules z (local - o1 * ms_per_minute - (o2 - o1) * ms_per_minute)"
  have span: "o2 - o3 \<le> 1440" "o3 - o2 \<le> 1440"
    unfolding o2_def o3_def by (rule offset_at_span)+
  have gap: "0 \<le> max o2 o3 - min o2 o3" "max o2 o3 - min o2 o3 \<le> 1440"
    using span by (simp_all add: max_def min_def)
  have hole: "local - min o2 o3 * 60000 + max o2 o3 * 60000 = local + (max o2 o3 - min o2 o3) * 60000"
    by (simp add: algebra_simps)
  have "local \<le> local + (max o2 o3 - min o2 o3) * 60000
        \<and> local + (max o2 o3 - min o2 o3) * 60000 \<le> local + 86400000"
    using gap by simp
  then show ?thesis
    unfolding fixOffset_def Let_def o2_def [symmetric] o3_def [symmetric]
    by (simp add: ms_per_minute_def ms_per_day_def hole algebra_simps)
qed

lemma local_ts_objToTS:
  "local \<le> local_ts (objToTS rules z local o1)
   \<and> local_ts (objToTS rules z local o1) \<le> local + ms_per_day"
  using fixOffset_local [of local rules z o1] by (simp add: local_ts_def objToTS_def)

lemma today_of_local:
  "today_of env tz
   = local_ts (startOfTodayInZone (zone_offset env) (clock env) tz) div ms_per_day"
  by (simp add: today_of_def toFormat_date_def)

lemma div_day_shift: "(x - k * ms_per_day) div ms_per_day = x div ms_per_day - k"
  by (simp add: ms_per_day_def)

lemma daysMissed_bounds:
  "today_of env tz - task_date t - 1
     \<le> daysMissed env (startOfTodayInZone (zone_offset env) (clock env) tz) tz t
   \<and> daysMissed env (startOfTodayInZone (zone_offset env) (clock env) tz) tz t
     \<le> today_of env tz - task_date t"
proof -
  let ?L = "local_ts (startOfTodayInZone (zone_offset env) (clock env) tz)"
  let ?E = "local_ts (fromISO_date (zone_offset env) (clock env) (task_date t) tz)"
  have e: "task_date t * ms_per_day \<le> ?E" "?E \<le> task_date t * ms_per_day + ms_per_day"
    using local_ts_objToTS [of "task_date t * ms_per_day" "zone_offset env" tz
        "offset_at (zone_offset env) tz (clock env)"]
    by (simp_all add: fromISO_date_def)
  have up: "(?L - ?E) div ms_per_day \<le> (?L - task_date t * ms_per_day) div ms_per_day"
    using e(1) by (intro zdiv_mono1) (simp_all add: ms_per_day_def)
  have "(?L - (task_date t + 1) * ms_per_day) div ms_per_day \<le> (?L - ?E) div ms_per_day"
    using e(2) by (intro zdiv_mono1) (simp_all add: ms_per_day_def algebra_simps)
  then have low: "?L div ms_per_day - (task_date t + 1) \<le> (?L - ?E) div ms_per_day"
    by (simp only: div_day_shift)
  from up low show ?thesis
    by (simp add: daysMissed_def diff_days_floor_def today_of_local div_day_shift)
qed

lemma daysMissed_nonneg:
  "task_date t < today_of env tz \<Longrightarrow>
   0 \<le> daysMissed env (startOfTodayInZone (zone_offset env) (clock env) tz) tz t"
  using daysMissed_bounds [of env tz t] by simp


subsection \<open>The carry-forward pass\<close>




text \<open>
  Claim C2. The pass selects only pending tasks dated before today, so a task already
  dated today and a completed task are never selected and are not changed; and a second
  pass on the same local day, after a pass that ran, changes no row.
\<close>

theorem carryForwardTasks_idempotent:
  assumes "distinct (map id_task rows)"
  shows "set (pendingTasks user today rows)
           = {t \<in> set rows. user_id t = user \<and> status t = ''pending'' \<and> task_date t < today}
       \<and> (\<forall>i < length rows.
            task_date (rows ! i) = today_of env tz \<or> status (rows ! i) = ''completed''
            \<longrightarrow> fst (carryForwardTasks env tz rows) ! i = rows ! i)
       \<and> (select_error env = None \<and> auth_user env' = auth_user env
            \<and> today_of env' tz = today_of env tz
            \<longrightarrow> fst (carryForwardTasks env' tz (fst (carryForwardTasks env tz rows)))
                = fst (carryForwardTasks env tz rows))"
proof (intro conjI)
  show "set (pendingTasks user today rows)
           = {t \<in> set rows. user_id t = user \<and> status t = ''pending'' \<and> task_date t < today}"
    by (auto simp: pendingTasks_def)
next
  show "\<forall>i < length rows.
            task_date (rows ! i) = today_of env tz \<or> status (rows ! i) = ''completed''
            \<longrightarrow> fst (carryForwardTasks env tz rows) ! i = rows ! i"
  proof (intro allI impI)
    fix i
    assume i: "i < length rows"
      and ex: "task_date (rows ! i) = today_of env tz \<or> status (rows ! i) = ''completed''"
    show "fst (carryForwardTasks env tz rows) ! i = rows ! i"
    proof (cases "auth_user env")
      case None
      then show ?thesis by (simp add: carryForwardTasks_def)
    next
      case (Some user)
      show ?thesis
      proof (cases "select_error env")
        case None
        from ex i show ?thesis
          by (auto simp: carryForwardTasks_map [OF assms Some None])
      next
        case (Some e)
        then show ?thesis
          by (simp add: carryForwardTasks_def Let_def split: option.splits)
      qed
    qed
  qed
next
  show "select_error env = None \<and> auth_user env' = auth_user env
            \<and> today_of env' tz = today_of env tz
            \<longrightarrow> fst (carryForwardTasks env' tz (fst (carryForwardTasks env tz rows)))
                = fst (carryForwardTasks env tz rows)"
  proof (intro impI, elim conjE)
    assume ok: "select_error env = None" and au: "auth_user env' = auth_user env"
      and day: "today_of env' tz = today_of env tz"
    show "fst (carryForwardTasks env' tz (fst (carryForwardTasks env tz rows)))
                = fst (carryForwardTasks env tz rows)"
    proof (rule carryForwardTasks_no_pending)
      fix user
      assume "auth_user env' = Some user"
      then have "auth_user env = Some user" using au by simp
      from pendingTasks_after_pass [OF assms this ok]
      show "pendingTasks user (today_of env' tz) (fst (carryForwardTasks env tz rows)) = []"
        by (simp add: day)
    qed
  qed
qed


theorem carryForwardTasks_idempotent_witness:
  "fst (carryForwardTasks scenario_backend ''Asia/Kolkata'' scenario_rows) ! 1 = scenario_rows ! 1
   \<and> fst (carryForwardTasks scenario_backend ''Asia/Kolkata'' scenario_rows) ! 2 = scenario_rows ! 2
   \<and> fst (carryForwardTasks (scenario_backend \<lparr> clock := utc_instant 2025 1 13 9 0 0 \<rparr>)
            ''Asia/Kolkata''
            (fst (carryForwardTasks scenario_backend ''Asia/Kolkata'' scenario_rows)))
       = fst (carryForwardTasks scenario_backend ''Asia/Kolkata'' scenario_rows)"
proof -
  have d: "distinct (map id_task scenario_rows)"
    by (simp add: scenario_rows_def scenario_task_def)
  note T = carryForwardTasks_idempotent [OF d, where env = scenario_backend
      and tz = "''Asia/Kolkata''"
      and env' = "scenario_backend \<lparr> clock := utc_instant 2025 1 13 9 0 0 \<rparr>"]
  have l: "1 < length scenario_rows" "2 < length scenario_rows"
    by (simp_all add: scenario_rows_def)
  have h1: "task_date (scenario_rows ! 1) = today_of scenario_backend ''Asia/Kolkata''"
    by code_simp
  have h2: "status (scenario_rows ! 2) = ''completed''"
    by code_simp
  have h3: "select_error scenario_backend = None"
    by (simp add: scenario_backend_def)
  have h4: "auth_user (scenario_backend \<lparr> clock := utc_instant 2025 1 13 9 0 0 \<rparr>)
            = auth_user scenario_backend"
    by simp
  have h5: "today_of (scenario_backend \<lparr> clock := utc_instant 2025 1 13 9 0 0 \<rparr>) ''Asia/Kolkata''
            = today_of scenario_backend ''Asia/Kolkata''"
    by code_simp
  from T l h1 h2 h3 h4 h5 show ?thesis
    by blast
qed

subsection \<open>Local time of day\<close>

lemma timeOfDay_eq:
  "timeOfDay env tz t
   = (start_time t + offset_at (zone_offset env) tz (start_time t) * ms_per_minute)
       mod ms_per_day div 1000"
  by (simp add: timeOfDay_def toFormat_time_def setZone_def local_ts_def)

lemma timeOfDay_range: "0 \<le> timeOfDay env tz t * 1000 \<and> timeOfDay env tz t * 1000 < ms_per_day"
proof -
  define x where "x = (start_time t + offset_at (zone_offset env) tz (start_time t) * ms_per_minute) mod 86400000"
  have "0 \<le> x" "x < 86400000" by (simp_all add: x_def)
  moreover have "x = x div 1000 * 1000 + x mod 1000" by simp
  moreover have "0 \<le> x mod 1000" by simp
  moreover have "0 \<le> x div 1000" using \<open>0 \<le> x\<close> by (simp add: pos_imp_zdiv_nonneg_iff)
  ultimately have "0 \<le> x div 1000 * 1000 \<and> x div 1000 * 1000 < 86400000" by linarith
  then show ?thesis by (simp add: timeOfDay_eq ms_per_day_def x_def)
qed

lemma local_date_of_parts:
  assumes "0 \<le> r" and "r < ms_per_day"
  shows "(d * ms_per_day + r) div ms_per_day = d" and "(d * ms_per_day + r) mod ms_per_day = r"
  using assms by (simp_all add: ms_per_day_def)

lemma fixOffset_found:
  assumes "offset_at rules z (local - offset_at rules z (local - o1 * ms_per_minute) * ms_per_minute)
           = offset_at rules z (local - o1 * ms_per_minute)"
  shows "fst (fixOffset rules z local o1)
         = local - offset_at rules z (local - o1 * ms_per_minute) * ms_per_minute"
proof -
  define c where "c = offset_at rules z (local - o1 * ms_per_minute)"
  have g2: "local - o1 * ms_per_minute - (c - o1) * ms_per_minute = local - c * ms_per_minute"
    by (simp add: algebra_simps)
  have tgt: "offset_at rules z (local - c * ms_per_minute) = c"
    using assms by (simp add: c_def)
  show ?thesis
    unfolding fixOffset_def Let_def c_def [symmetric] g2 tgt
    by simp
qed

lemma fixOffset_skipped:
  assumes "offset_at rules z (local - offset_at rules z (local - o1 * ms_per_minute) * ms_per_minute)
           \<noteq> offset_at rules z (local - o1 * ms_per_minute)"
  shows "fst (fixOffset rules z local o1)
         = local - min (offset_at rules z (local - o1 * ms_per_minute))
                       (offset_at rules z
                          (local - offset_at rules z (local - o1 * ms_per_minute) * ms_per_minute))
                   * ms_per_minute"
proof -
  define c where "c = offset_at rules z (local - o1 * ms_per_minute)"
  define c3 where "c3 = offset_at rules z (local - c * ms_per_minute)"
  have g2: "local - o1 * ms_per_minute - (c - o1) * ms_per_minute = local - c * ms_per_minute"
    by (simp add: algebra_simps)
  have tgt: "c3 \<noteq> c"
    using assms unfolding c3_def c_def .
  have ne: "o1 \<noteq> c"
  proof
    assume e: "o1 = c"
    have "offset_at rules z (local - o1 * ms_per_minute) = c"
      by (simp only: c_def)
    then have "offset_at rules z (local - c * ms_per_minute) = c"
      by (simp only: e)
    with tgt show False
      by (simp only: c3_def)
  qed
  have "fst (if o1 = c then (local - o1 * ms_per_minute, o1)
             else if c = c3 then (local - c * ms_per_minute, c)
             else (local - min c c3 * ms_per_minute, max c c3))
        = local - min c c3 * ms_per_minute"
    using ne tgt by simp
  then show ?thesis
    unfolding fixOffset_def Let_def c_def [symmetric] g2 c3_def [symmetric] .
qed

lemma newStartTimeUtc_fixOffset:
  "newStartTimeUtc env tz today t
   = fst (fixOffset (zone_offset env) tz (today * ms_per_day + timeOfDay env tz t * 1000)
            (offset_at (zone_offset env) tz (clock env)))"
  by (simp add: newStartTimeUtc_def toUTC_def fromFormat_date_time_def objToTS_def)

text \<open>
  Claim C3, as amended. Rolling a task forward keeps its local time of day whenever
  luxon finds that local time on today's date: with \<open>wanted\<close> today's date combined
  with the hour, minute and second that the old \<open>start_time\<close> shows in the zone, and
  \<open>c\<close> the UTC offset in effect at luxon's first guess (\<open>wanted\<close> taken back with the
  offset at the clock time), if \<open>c\<close> is also in effect at \<open>wanted\<close> taken back with \<open>c\<close>,
  then the new \<open>start_time\<close> is that instant: it has offset \<open>c\<close>, the offset in effect
  today and not that of the task's original day, and read in the zone it shows today's
  date and the old time of day. Otherwise the zone skips that local time today, and the
  new \<open>start_time\<close> is \<open>wanted\<close> taken back with the smaller of the two offsets found,
  which shows a later time of day. For Asia/Kolkata, \<open>task_date\<close> 2025-01-10,
  \<open>start_time\<close> 2025-01-10T13:30:00Z and today 2025-01-13, the pass gives
  \<open>daysMissed = 3\<close>, \<open>task_date\<close> 2025-01-13, \<open>start_time\<close> 2025-01-13T13:30:00Z and
  \<open>consecutive_missed_days = 3\<close>.
\<close>

theorem rollover_keeps_local_time_of_day:
  fixes env :: backend and tz :: string and rows :: "Task list" and i :: nat
  defines "wanted \<equiv> today_of env tz * ms_per_day + timeOfDay env tz (rows ! i) * 1000"
  defines "c \<equiv> offset_at (zone_offset env) tz
                  (wanted - offset_at (zone_offset env) tz (clock env) * ms_per_minute)"
  defines "new \<equiv> start_time (fst (carryForwardTasks env tz rows) ! i)"
  assumes "auth_user env = Some user" and "select_error env = None"
    and "distinct (map id_task rows)"
    and "i < length rows"
    and "user_id (rows ! i) = user" and "status (rows ! i) = ''pending''"
    and "task_date (rows ! i) < today_of env tz"
  shows "timeOfDay env tz (rows ! i)
           = toFormat_time (setZone (zone_offset env) (start_time (rows ! i)) tz)
       \<and> (offset_at (zone_offset env) tz (wanted - c * ms_per_minute) = c
            \<longrightarrow> new = wanted - c * ms_per_minute
                \<and> offset_at (zone_offset env) tz new = c
                \<and> toFormat_date (setZone (zone_offset env) new tz) = today_of env tz
                \<and> toFormat_time (setZone (zone_offset env) new tz) = timeOfDay env tz (rows ! i))
       \<and> (offset_at (zone_offset env) tz (wanted - c * ms_per_minute) \<noteq> c
            \<longrightarrow> new = wanted
                      - min c (offset_at (zone_offset env) tz (wanted - c * ms_per_minute))
                        * ms_per_minute)
       \<and> today_of scenario_backend ''Asia/Kolkata'' = civil_date 2025 1 13
       \<and> daysMissed scenario_backend
            (startOfTodayInZone (zone_offset scenario_backend) (clock scenario_backend)
               ''Asia/Kolkata'')
            ''Asia/Kolkata'' scenario_task = 3
       \<and> fst (carryForwardTasks scenario_backend ''Asia/Kolkata'' [scenario_task])
           = [scenario_task \<lparr> task_date := civil_date 2025 1 13,
                               start_time := utc_instant 2025 1 13 13 30 0,
                               consecutive_missed_days := 3 \<rparr>]"
proof -
  have new_fix: "new = fst (fixOffset (zone_offset env) tz wanted
                             (offset_at (zone_offset env) tz (clock env)))"
    unfolding new_def wanted_def
    using assms(7-10)
    by (simp add: carryForwardTasks_map [OF assms(6) assms(4) assms(5)] newStartTimeUtc_fixOffset)
  have found: "new = wanted - c * ms_per_minute
                \<and> offset_at (zone_offset env) tz new = c
                \<and> toFormat_date (setZone (zone_offset env) new tz) = today_of env tz
                \<and> toFormat_time (setZone (zone_offset env) new tz) = timeOfDay env tz (rows ! i)"
    if h0: "offset_at (zone_offset env) tz (wanted - c * ms_per_minute) = c"
  proof -
    from h0 have h: "offset_at (zone_offset env) tz
            (wanted - offset_at (zone_offset env) tz
                        (wanted - offset_at (zone_offset env) tz (clock env) * ms_per_minute)
                      * ms_per_minute)
          = offset_at (zone_offset env) tz
              (wanted - offset_at (zone_offset env) tz (clock env) * ms_per_minute)"
      unfolding c_def .
    have n: "new = wanted - c * ms_per_minute"
      unfolding new_fix c_def by (rule fixOffset_found [OF h])
    have off: "offset_at (zone_offset env) tz new = c"
      unfolding n by (rule h0)
    have loc: "new + c * ms_per_minute = wanted"
      by (simp add: n)
    have d: "toFormat_date (setZone (zone_offset env) new tz) = today_of env tz"
      using timeOfDay_range [of env tz "rows ! i"]
      by (simp add: toFormat_date_def setZone_def local_ts_def off loc)
         (simp add: wanted_def local_date_of_parts)
    have t: "toFormat_time (setZone (zone_offset env) new tz) = timeOfDay env tz (rows ! i)"
      using timeOfDay_range [of env tz "rows ! i"]
      by (simp add: toFormat_time_def setZone_def local_ts_def off loc)
         (simp add: wanted_def local_date_of_parts)
    from n off d t show ?thesis by blast
  qed
  have skipped: "new = wanted
                      - min c (offset_at (zone_offset env) tz (wanted - c * ms_per_minute))
                        * ms_per_minute"
    if "offset_at (zone_offset env) tz (wanted - c * ms_per_minute) \<noteq> c"
  proof -
    from that have h: "offset_at (zone_offset env) tz
            (wanted - offset_at (zone_offset env) tz
                        (wanted - offset_at (zone_offset env) tz (clock env) * ms_per_minute)
                      * ms_per_minute)
          \<noteq> offset_at (zone_offset env) tz
              (wanted - offset_at (zone_offset env) tz (clock env) * ms_per_minute)"
      unfolding c_def .
    show ?thesis
      unfolding new_fix c_def by (rule fixOffset_skipped [OF h])
  qed
  have a0: "timeOfDay env tz (rows ! i)
           = toFormat_time (setZone (zone_offset env) (start_time (rows ! i)) tz)"
    by (simp add: timeOfDay_def)
  have a1: "today_of scenario_backend ''Asia/Kolkata'' = civil_date 2025 1 13"
    by code_simp
  have a2: "daysMissed scenario_backend
            (startOfTodayInZone (zone_offset scenario_backend) (clock scenario_backend)
               ''Asia/Kolkata'')
            ''Asia/Kolkata'' scenario_task = 3"
    by code_simp
  have a3: "fst (carryForwardTasks scenario_backend ''Asia/Kolkata'' [scenario_task])
           = [scenario_task \<lparr> task_date := civil_date 2025 1 13,
                               start_time := utc_instant 2025 1 13 13 30 0,
                               consecutive_missed_days := 3 \<rparr>]"
    by code_simp
  from a0 found skipped a1 a2 a3 show ?thesis
    by blast
qed

theorem rollover_keeps_local_time_of_day_witness:
  "offset_at sample_rules ''Europe/Berlin'' (start_time berlin_task) = 120
   \<and> offset_at sample_rules ''Europe/Berlin'' (clock berlin_backend) = 120
   \<and> timeOfDay berlin_backend ''Europe/Berlin'' berlin_task = (19 * 60 + 0) * 60 + 0
   \<and> start_time (fst (carryForwardTasks berlin_backend ''Europe/Berlin'' [berlin_task]) ! 0)
       = utc_instant 2025 10 26 18 0 0
   \<and> offset_at sample_rules ''Europe/Berlin'' (utc_instant 2025 10 26 18 0 0) = 60
   \<and> toFormat_time
        (setZone sample_rules
           (start_time (fst (carryForwardTasks berlin_backend ''Europe/Berlin'' [berlin_task]) ! 0))
           ''Europe/Berlin'')
       = (19 * 60 + 0) * 60 + 0"
proof -
  have h1: "auth_user berlin_backend = Some ''user-3''"
    by (simp add: berlin_backend_def)
  have h2: "select_error berlin_backend = None"
    by (simp add: berlin_backend_def)
  have h3: "distinct (map id_task [berlin_task])"
    by simp
  have h4: "0 < length [berlin_task]"
    by simp
  have h5: "user_id ([berlin_task] ! 0) = ''user-3''"
    by (simp add: berlin_task_def)
  have h6: "status ([berlin_task] ! 0) = ''pending''"
    by (simp add: berlin_task_def scenario_task_def)
  have h7: "task_date ([berlin_task] ! 0) < today_of berlin_backend ''Europe/Berlin''"
    by code_simp
  have r0: "[berlin_task] ! 0 = berlin_task"
    by simp
  have z: "zone_offset berlin_backend = sample_rules"
    by (simp add: berlin_backend_def)
  have clk: "clock berlin_backend = utc_instant 2025 10 25 22 30 0"
    by (simp add: berlin_backend_def)
  have today: "today_of berlin_backend ''Europe/Berlin'' = civil_date 2025 10 26"
    by code_simp
  have tod: "timeOfDay berlin_backend ''Europe/Berlin'' berlin_task = 68400"
    by code_simp
  have g: "offset_at sample_rules ''Europe/Berlin'' (utc_instant 2025 10 25 22 30 0) = 120"
    by code_simp
  have c: "offset_at sample_rules ''Europe/Berlin''
             (civil_date 2025 10 26 * ms_per_day + 68400 * 1000 - 120 * ms_per_minute) = 60"
    by code_simp
  have tgt: "offset_at sample_rules ''Europe/Berlin''
             (civil_date 2025 10 26 * ms_per_day + 68400 * 1000 - 60 * ms_per_minute) = 60"
    by code_simp
  have val: "civil_date 2025 10 26 * ms_per_day + 68400 * 1000 - 60 * ms_per_minute
             = utc_instant 2025 10 26 18 0 0"
    by code_simp
  have s1: "offset_at sample_rules ''Europe/Berlin'' (start_time berlin_task) = 120"
    by code_simp
  have s6: "offset_at sample_rules ''Europe/Berlin'' (utc_instant 2025 10 26 18 0 0) = 60"
    by code_simp
  note T = rollover_keeps_local_time_of_day [OF h1 h2 h3 h4 h5 h6 h7,
      unfolded r0 z clk today tod g c tgt val]
  from T s6 have a: "start_time (fst (carryForwardTasks berlin_backend ''Europe/Berlin'' [berlin_task]) ! 0)
       = utc_instant 2025 10 26 18 0 0"
    by blast
  from T s6 have b: "toFormat_time
        (setZone sample_rules
           (start_time (fst (carryForwardTasks berlin_backend ''Europe/Berlin'' [berlin_task]) ! 0))
           ''Europe/Berlin'')
       = 68400"
    by blast
  have k: "(19 * 60 + 0) * 60 + 0 = (68400::int)"
    by simp
  from s1 g s6 tod a b show ?thesis
    unfolding clk k by blast
qed

text \<open>
  The claim as first stated (the time of day is kept by every rollover) fails where the
  zone skips that time today: in Europe/Berlin the clocks go from 02:00 to 03:00 on
  2025-03-30, and a task of 02:30 local time rolled onto that day starts at 03:30.
\<close>

theorem rollover_skipped_time_counterexample:
  "auth_user skipped_backend = Some ''user-3''
   \<and> select_error skipped_backend = None
   \<and> user_id skipped_task = ''user-3''
   \<and> status skipped_task = ''pending''
   \<and> today_of skipped_backend ''Europe/Berlin'' = civil_date 2025 3 30
   \<and> task_date skipped_task < today_of skipped_backend ''Europe/Berlin''
   \<and> timeOfDay skipped_backend ''Europe/Berlin'' skipped_task = (2 * 60 + 30) * 60 + 0
   \<and> start_time (fst (carryForwardTasks skipped_backend ''Europe/Berlin'' [skipped_task]) ! 0)
       = utc_instant 2025 3 30 1 30 0
   \<and> toFormat_time
        (setZone (zone_offset skipped_backend)
           (start_time (fst (carryForwardTasks skipped_backend ''Europe/Berlin'' [skipped_task]) ! 0))
           ''Europe/Berlin'')
       = (3 * 60 + 30) * 60 + 0
   \<and> toFormat_time
        (setZone (zone_offset skipped_backend)
           (start_time (fst (carryForwardTasks skipped_backend ''Europe/Berlin'' [skipped_task]) ! 0))
           ''Europe/Berlin'')
       \<noteq> timeOfDay skipped_backend ''Europe/Berlin'' skipped_task"
  by code_simp

subsection \<open>The missed-day count and the frame of an update\<close>

lemma map_update_eq_id_unset:
  assumes "\<And>t. g (apply_update u t) = g t"
  shows "map g (update_eq_id u i rows) = map g rows"
  by (simp add: update_eq_id_def assms)

lemma handleComplete_cases:
  "fst (handleComplete env tz task completionTime completionImage rows) = rows
   \<or> (\<exists>d p. fst (handleComplete env tz task completionTime completionImage rows)
        = update_eq_id
            \<lparr> set_task_date = None, set_start_time = None,
              set_consecutive_missed_days = None, set_status = Some ''completed'',
              set_end_time =
                Some (Some (localToUtcISO (zone_offset env) (clock env) completionTime tz)),
              set_total_time_minutes = Some (Some d), set_image_path = Some p \<rparr>
            (id_task task) rows)"
  by (auto simp: handleComplete_def Let_def split: sum.splits option.splits)

text \<open>
  Claim C4. \<open>consecutive_missed_days\<close> never decreases: after a carry-forward pass the
  count of every row is at least what it was before, and the completion flow leaves the
  count of every row as it was.
\<close>

theorem consecutive_missed_days_never_decreases:
  assumes "distinct (map id_task rows)"
  shows "length (fst (carryForwardTasks env tz rows)) = length rows
       \<and> (\<forall>i < length rows.
             consecutive_missed_days (rows ! i)
             \<le> consecutive_missed_days (fst (carryForwardTasks env tz rows) ! i))
       \<and> map consecutive_missed_days
             (fst (handleComplete env tz task completionTime completionImage rows))
           = map consecutive_missed_days rows"
proof (intro conjI allI impI)
  show "length (fst (carryForwardTasks env tz rows)) = length rows"
    by (rule length_carryForwardTasks)
next
  fix i
  assume i: "i < length rows"
  from carryForwardTasks_cases [OF assms, of env tz]
  show "consecutive_missed_days (rows ! i)
        \<le> consecutive_missed_days (fst (carryForwardTasks env tz rows) ! i)"
  proof (elim disjE exE)
    assume "fst (carryForwardTasks env tz rows) = rows"
    then show ?thesis by simp
  next
    fix user
    assume m: "fst (carryForwardTasks env tz rows)
           = map (\<lambda>r. if user_id r = user \<and> status r = ''pending'' \<and> task_date r < today_of env tz
                     then r \<lparr> task_date := today_of env tz,
                              start_time := newStartTimeUtc env tz (today_of env tz) r,
                              consecutive_missed_days :=
                                consecutive_missed_days r
                                + daysMissed env (startOfTodayInZone (zone_offset env) (clock env) tz) tz r \<rparr>
                     else r) rows"
    show ?thesis
      using i daysMissed_nonneg [of "rows ! i" env tz] by (simp add: m)
  qed
next
  from handleComplete_cases [of env tz task completionTime completionImage rows]
  show "map consecutive_missed_days
             (fst (handleComplete env tz task completionTime completionImage rows))
           = map consecutive_missed_days rows"
  proof (elim disjE exE)
    assume "fst (handleComplete env tz task completionTime completionImage rows) = rows"
    then show ?thesis by simp
  next
    fix d p
    assume "fst (handleComplete env tz task completionTime completionImage rows)
        = update_eq_id
            \<lparr> set_task_date = None, set_start_time = None,
              set_consecutive_missed_days = None, set_status = Some ''completed'',
              set_end_time =
                Some (Some (localToUtcISO (zone_offset env) (clock env) completionTime tz)),
              set_total_time_minutes = Some (Some d), set_image_path = Some p \<rparr>
            (id_task task) rows"
    then show ?thesis
      by (simp add: map_update_eq_id_unset apply_update_def)
  qed
qed

theorem consecutive_missed_days_never_decreases_witness:
  "consecutive_missed_days (scenario_rows ! 0)
     \<le> consecutive_missed_days (fst (carryForwardTasks scenario_backend ''Asia/Kolkata'' scenario_rows) ! 0)
   \<and> map consecutive_missed_days
        (fst (handleComplete scenario_backend ''Asia/Kolkata'' (scenario_rows ! 1)
               \<lparr> input_date = civil_date 2025 1 13, input_minutes = 8 * 60 + 15 \<rparr> None
               scenario_rows))
      = map consecutive_missed_days scenario_rows
   \<and> map status
        (fst (handleComplete scenario_backend ''Asia/Kolkata'' (scenario_rows ! 1)
               \<lparr> input_date = civil_date 2025 1 13, input_minutes = 8 * 60 + 15 \<rparr> None
               scenario_rows))
      = [''pending'', ''completed'', ''completed'', ''pending'']"
proof -
  have d: "distinct (map id_task scenario_rows)"
    by (simp add: scenario_rows_def scenario_task_def)
  have l: "0 < length scenario_rows"
    by (simp add: scenario_rows_def)
  have s: "map status
        (fst (handleComplete scenario_backend ''Asia/Kolkata'' (scenario_rows ! 1)
               \<lparr> input_date = civil_date 2025 1 13, input_minutes = 8 * 60 + 15 \<rparr> None
               scenario_rows))
      = [''pending'', ''completed'', ''completed'', ''pending'']"
    by code_simp
  from consecutive_missed_days_never_decreases [OF d, of scenario_backend "''Asia/Kolkata''"
      "scenario_rows ! 1" "\<lparr> input_date = civil_date 2025 1 13, input_minutes = 8 * 60 + 15 \<rparr>" None]
    l s
  show ?thesis
    by blast
qed

lemma rolled_row_frame:
  fixes r r' :: Task
  assumes "r' = r \<or> r' = r \<lparr> task_date := a, start_time := b, consecutive_missed_days := c \<rparr>"
  shows "title r' = title r \<and> description r' = description r \<and> status r' = status r
      \<and> end_time r' = end_time r \<and> total_time_minutes r' = total_time_minutes r
      \<and> image_path r' = image_path r \<and> id_task r' = id_task r \<and> user_id r' = user_id r
      \<and> original_date r' = original_date r"
  using assms by (elim disjE) simp_all

text \<open>
  Claim C9. The update object of a rollover carries \<open>task_date\<close>, \<open>start_time\<close> and
  \<open>consecutive_missed_days\<close> together and no other column; after a pass every row is
  either as it was or has exactly these three fields rewritten, and its title,
  description, status, \<open>end_time\<close>, \<open>total_time_minutes\<close> and \<open>image_path\<close> (and its
  id, owner and original date) are unchanged.
\<close>

theorem rollover_single_update_frame:
  assumes "distinct (map id_task rows)"
  shows "set_task_date (rollover env tz todayStart today t) = Some today
       \<and> set_start_time (rollover env tz todayStart today t)
           = Some (newStartTimeUtc env tz today t)
       \<and> set_consecutive_missed_days (rollover env tz todayStart today t)
           = Some (consecutive_missed_days t + daysMissed env todayStart tz t)
       \<and> set_status (rollover env tz todayStart today t) = None
       \<and> set_end_time (rollover env tz todayStart today t) = None
       \<and> set_total_time_minutes (rollover env tz todayStart today t) = None
       \<and> set_image_path (rollover env tz todayStart today t) = None
       \<and> (\<forall>i < length rows.
             (fst (carryForwardTasks env tz rows) ! i = rows ! i
              \<or> fst (carryForwardTasks env tz rows) ! i
                 = (rows ! i)
                     \<lparr> task_date := today_of env tz,
                       start_time := newStartTimeUtc env tz (today_of env tz) (rows ! i),
                       consecutive_missed_days :=
                         consecutive_missed_days (rows ! i)
                         + daysMissed env (startOfTodayInZone (zone_offset env) (clock env) tz)
                             tz (rows ! i) \<rparr>)
             \<and> title (fst (carryForwardTasks env tz rows) ! i) = title (rows ! i)
             \<and> description (fst (carryForwardTasks env tz rows) ! i) = description (rows ! i)
             \<and> status (fst (carryForwardTasks env tz rows) ! i) = status (rows ! i)
             \<and> end_time (fst (carryForwardTasks env tz rows) ! i) = end_time (rows ! i)
             \<and> total_time_minutes (fst (carryForwardTasks env tz rows) ! i)
                 = total_time_minutes (rows ! i)
             \<and> image_path (fst (carryForwardTasks env tz rows) ! i) = image_path (rows ! i)
             \<and> id_task (fst (carryForwardTasks env tz rows) ! i) = id_task (rows ! i)
             \<and> user_id (fst (carryForwardTasks env tz rows) ! i) = user_id (rows ! i)
             \<and> original_date (fst (carryForwardTasks env tz rows) ! i)
                 = original_date (rows ! i))"
proof -
  have payload: "set_task_date (rollover env tz todayStart today t) = Some today
       \<and> set_start_time (rollover env tz todayStart today t)
           = Some (newStartTimeUtc env tz today t)
       \<and> set_consecutive_missed_days (rollover env tz todayStart today t)
           = Some (consecutive_missed_days t + daysMissed env todayStart tz t)
       \<and> set_status (rollover env tz todayStart today t) = None
       \<and> set_end_time (rollover env tz todayStart today t) = None
       \<and> set_total_time_minutes (rollover env tz todayStart today t) = None
       \<and> set_image_path (rollover env tz todayStart today t) = None"
    by (simp add: rollover_def)
  have store: "(fst (carryForwardTasks env tz rows) ! i = rows ! i
              \<or> fst (carryForwardTasks env tz rows) ! i
                 = (rows ! i)
                     \<lparr> task_date := today_of env tz,
                       start_time := newStartTimeUtc env tz (today_of env tz) (rows ! i),
                       consecutive_missed_days :=
                         consecutive_missed_days (rows ! i)
                         + daysMissed env (startOfTodayInZone (zone_offset env) (clock env) tz)
                             tz (rows ! i) \<rparr>)
             \<and> title (fst (carryForwardTasks env tz rows) ! i) = title (rows ! i)
             \<and> description (fst (carryForwardTasks env tz rows) ! i) = description (rows ! i)
             \<and> status (fst (carryForwardTasks env tz rows) ! i) = status (rows ! i)
             \<and> end_time (fst (carryForwardTasks env tz rows) ! i) = end_time (rows ! i)
             \<and> total_time_minutes (fst (carryForwardTasks env tz rows) ! i)
                 = total_time_minutes (rows ! i)
             \<and> image_path (fst (carryForwardTasks env tz rows) ! i) = image_path (rows ! i)
             \<and> id_task (fst (carryForwardTasks env tz rows) ! i) = id_task (rows ! i)
             \<and> user_id (fst (carryForwardTasks env tz rows) ! i) = user_id (rows ! i)
             \<and> original_date (fst (carryForwardTasks env tz rows) ! i)
                 = original_date (rows ! i)" if "i < length rows" for i
  proof -
    note r = carryForwardTasks_row [OF assms that, of env tz]
    from r rolled_row_frame [OF r] show ?thesis
      by (rule conjI)
  qed
  from store have "\<forall>i < length rows.
             (fst (carryForwardTasks env tz rows) ! i = rows ! i
              \<or> fst (carryForwardTasks env tz rows) ! i
                 = (rows ! i)
                     \<lparr> task_date := today_of env tz,
                       start_time := newStartTimeUtc env tz (today_of env tz) (rows ! i),
                       consecutive_missed_days :=
                         consecutive_missed_days (rows ! i)
                         + daysMissed env (startOfTodayInZone (zone_offset env) (clock env) tz)
                             tz (rows ! i) \<rparr>)
             \<and> title (fst (carryForwardTasks env tz rows) ! i) = title (rows ! i)
             \<and> description (fst (carryForwardTasks env tz rows) ! i) = description (rows ! i)
             \<and> status (fst (carryForwardTasks env tz rows) ! i) = status (rows ! i)
             \<and> end_time (fst (carryForwardTasks env tz rows) ! i) = end_time (rows ! i)
             \<and> total_time_minutes (fst (carryForwardTasks env tz rows) ! i)
                 = total_time_minutes (rows ! i)
             \<and> image_path (fst (carryForwardTasks env tz rows) ! i) = image_path (rows ! i)
             \<and> id_task (fst (carryForwardTasks env tz rows) ! i) = id_task (rows ! i)
             \<and> user_id (fst (carryForwardTasks env tz rows) ! i) = user_id (rows ! i)
             \<and> original_date (fst (carryForwardTasks env tz rows) ! i)
                 = original_date (rows ! i)"
    by (intro allI impI)
  with payload show ?thesis
    by (simp only: conj_assoc)
qed

theorem rollover_single_update_frame_witness:
  "fst (carryForwardTasks scenario_backend ''Asia/Kolkata'' scenario_rows) ! 0 \<noteq> scenario_rows ! 0
   \<and> title (fst (carryForwardTasks scenario_backend ''Asia/Kolkata'' scenario_rows) ! 0)
       = ''Evening walk''
   \<and> status (fst (carryForwardTasks scenario_backend ''Asia/Kolkata'' scenario_rows) ! 0)
       = ''pending''
   \<and> end_time (fst (carryForwardTasks scenario_backend ''Asia/Kolkata'' scenario_rows) ! 0) = None
   \<and> fst (carryForwardTasks scenario_backend ''Asia/Kolkata'' scenario_rows) ! 0
       = (scenario_rows ! 0)
           \<lparr> task_date := today_of scenario_backend ''Asia/Kolkata'',
             start_time :=
               newStartTimeUtc scenario_backend ''Asia/Kolkata''
                 (today_of scenario_backend ''Asia/Kolkata'') (scenario_rows ! 0),
             consecutive_missed_days :=
               consecutive_missed_days (scenario_rows ! 0)
               + daysMissed scenario_backend
                   (startOfTodayInZone (zone_offset scenario_backend) (clock scenario_backend)
                      ''Asia/Kolkata'')
                   ''Asia/Kolkata'' (scenario_rows ! 0) \<rparr>"
proof -
  have d: "distinct (map id_task scenario_rows)"
    by (simp add: scenario_rows_def scenario_task_def)
  have l: "0 < length scenario_rows"
    by (simp add: scenario_rows_def)
  have n: "fst (carryForwardTasks scenario_backend ''Asia/Kolkata'' scenario_rows) ! 0
           \<noteq> scenario_rows ! 0"
    by code_simp
  have t: "title (scenario_rows ! 0) = ''Evening walk''" "status (scenario_rows ! 0) = ''pending''"
    "end_time (scenario_rows ! 0) = None"
    by (simp_all add: scenario_rows_def scenario_task_def)
  from rollover_single_update_frame [OF d, of scenario_backend "''Asia/Kolkata''"] l
  have "(fst (carryForwardTasks scenario_backend ''Asia/Kolkata'' scenario_rows) ! 0
           = scenario_rows ! 0
         \<or> fst (carryForwardTasks scenario_backend ''Asia/Kolkata'' scenario_rows) ! 0
            = (scenario_rows ! 0)
           \<lparr> task_date := today_of scenario_backend ''Asia/Kolkata'',
             start_time :=
               newStartTimeUtc scenario_backend ''Asia/Kolkata''
                 (today_of scenario_backend ''Asia/Kolkata'') (scenario_rows ! 0),
             consecutive_missed_days :=
               consecutive_missed_days (scenario_rows ! 0)
               + daysMissed scenario_backend
                   (startOfTodayInZone (zone_offset scenario_backend) (clock scenario_backend)
                      ''Asia/Kolkata'')
                   ''Asia/Kolkata'' (scenario_rows ! 0) \<rparr>)
        \<and> title (fst (carryForwardTasks scenario_backend ''Asia/Kolkata'' scenario_rows) ! 0)
            = title (scenario_rows ! 0)
        \<and> status (fst (carryForwardTasks scenario_backend ''Asia/Kolkata'' scenario_rows) ! 0)
            = status (scenario_rows ! 0)
        \<and> end_time (fst (carryForwardTasks scenario_backend ''Asia/Kolkata'' scenario_rows) ! 0)
            = end_time (scenario_rows ! 0)"
    by blast
  with n t show ?thesis
    by simp
qed

subsection \<open>The timezone the pass reads\<close>

text \<open>
  Claim C8. The pass is to derive today and the local times of day in the timezone of
  the user's profile (UTC when there is none), that is, in \<open>getUserTimezone\<close> of the
  stored value. On the page, \<open>fetchUserTimezone\<close> does put that value into the state
  cell, but the pass that \<open>initializeTasks\<close> runs reads the binding of the first render,
  \<open>"UTC"\<close>. For a user of Asia/Kolkata who opens the page at 2025-01-13T20:00:00Z
  (01:30 of 2025-01-14 local time), the task of 2025-01-10 is rolled to 2025-01-13 with
  a count of 3; in the profile's timezone it would be rolled to 2025-01-14 with a count
  of 4.
\<close>

theorem mount_Tasks_reads_initial_timezone:
  "fst (mount_Tasks env rows)
     = (case auth_user env of
          None \<Rightarrow> ''UTC''
        | Some user \<Rightarrow> getUserTimezone (profile_timezone env))
   \<and> fst (snd (mount_Tasks env rows)) = fst (carryForwardTasks env ''UTC'' rows)
   \<and> fst (mount_Tasks late_backend [scenario_task]) = ''Asia/Kolkata''
   \<and> getUserTimezone (profile_timezone late_backend) = ''Asia/Kolkata''
   \<and> today_of late_backend ''UTC'' = civil_date 2025 1 13
   \<and> today_of late_backend (getUserTimezone (profile_timezone late_backend))
       = civil_date 2025 1 14
   \<and> fst (snd (mount_Tasks late_backend [scenario_task]))
       = [scenario_task \<lparr> task_date := civil_date 2025 1 13,
                           start_time := utc_instant 2025 1 13 13 30 0,
                           consecutive_missed_days := 3 \<rparr>]
   \<and> fst (carryForwardTasks late_backend (getUserTimezone (profile_timezone late_backend))
           [scenario_task])
       = [scenario_task \<lparr> task_date := civil_date 2025 1 14,
                           start_time := utc_instant 2025 1 14 13 30 0,
                           consecutive_missed_days := 4 \<rparr>]"
proof -
  have a: "fst (snd (mount_Tasks env rows)) = fst (carryForwardTasks env ''UTC'' rows)"
    by (simp add: mount_Tasks_def initializeTasks_def Let_def)
  have a0: "fst (mount_Tasks env rows)
     = (case auth_user env of
          None \<Rightarrow> ''UTC''
        | Some user \<Rightarrow> getUserTimezone (profile_timezone env))"
    by (simp add: mount_Tasks_def initializeTasks_def Let_def fetchUserTimezone_def
        getUserTimezone_def split: option.splits)
  have b: "fst (mount_Tasks late_backend [scenario_task]) = ''Asia/Kolkata''"
    by code_simp
  have c: "getUserTimezone (profile_timezone late_backend) = ''Asia/Kolkata''"
    by code_simp
  have d: "today_of late_backend ''UTC'' = civil_date 2025 1 13"
    by code_simp
  have e: "today_of late_backend (getUserTimezone (profile_timezone late_backend))
       = civil_date 2025 1 14"
    by code_simp
  have f: "fst (snd (mount_Tasks late_backend [scenario_task]))
       = [scenario_task \<lparr> task_date := civil_date 2025 1 13,
                           start_time := utc_instant 2025 1 13 13 30 0,
                           consecutive_missed_days := 3 \<rparr>]"
    by code_simp
  have g: "fst (carryForwardTasks late_backend (getUserTimezone (profile_timezone late_backend))
           [scenario_task])
       = [scenario_task \<lparr> task_date := civil_date 2025 1 14,
                           start_time := utc_instant 2025 1 14 13 30 0,
                           consecutive_missed_days := 4 \<rparr>]"
    by code_simp
  from a0 a b c d e f g show ?thesis
    by blast
qed

subsection \<open>Status display\<close>

lemma show_int_1: "show_int 1 = ''1''"
  by code_simp

lemma show_int_2: "show_int 2 = ''2''"
  by code_simp

lemma show_int_3: "show_int 3 = ''3''"
  by code_simp

text \<open>
  Claim C5. The status classifier is a total function with exact integer boundaries:
  a completed task is shown as Completed whatever its missed-day count; a pending task
  with a count of 3 or more is shown as Overdue with the count; a pending task with a
  count of exactly 1 or exactly 2 is shown as Carried with the count; a pending task
  with a count of 0 is shown as Pending; and the result is always one of these four
  badges.
\<close>

theorem getTaskStatusInfo_boundaries:
  "(status t = ''completed'' \<longrightarrow>
      badge (getTaskStatusInfo t) = Default \<and> label (getTaskStatusInfo t) = ''Completed'')
   \<and> (status t = ''pending'' \<and> consecutive_missed_days t \<ge> 3 \<longrightarrow>
      badge (getTaskStatusInfo t) = Destructive
      \<and> label (getTaskStatusInfo t)
          = ''Overdue '' @ show_int (consecutive_missed_days t) @ '' days'')
   \<and> (status t = ''pending'' \<and> consecutive_missed_days t = 1 \<longrightarrow>
      badge (getTaskStatusInfo t) = Secondary
      \<and> label (getTaskStatusInfo t) = ''Carried 1 day'')
   \<and> (status t = ''pending'' \<and> consecutive_missed_days t = 2 \<longrightarrow>
      badge (getTaskStatusInfo t) = Secondary
      \<and> label (getTaskStatusInfo t) = ''Carried 2 days'')
   \<and> (status t = ''pending'' \<and> consecutive_missed_days t = 0 \<longrightarrow>
      badge (getTaskStatusInfo t) = Outline \<and> label (getTaskStatusInfo t) = ''Pending'')
   \<and> (badge (getTaskStatusInfo t) = Secondary \<longrightarrow>
      consecutive_missed_days t = 1 \<or> consecutive_missed_days t = 2)
   \<and> (badge (getTaskStatusInfo t) = Destructive \<longrightarrow> consecutive_missed_days t \<ge> 3)
   \<and> (badge (getTaskStatusInfo t) = Default \<longrightarrow> status t = ''completed'')
   \<and> badge (getTaskStatusInfo t) \<in> {Default, Destructive, Secondary, Outline}"
  by (auto simp add: getTaskStatusInfo_def show_int_1 show_int_2)

theorem getTaskStatusInfo_boundaries_witness:
  "label (getTaskStatusInfo (scenario_task \<lparr> status := ''completed'', consecutive_missed_days := 5 \<rparr>))
     = ''Completed''
   \<and> label (getTaskStatusInfo (scenario_task \<lparr> consecutive_missed_days := 3 \<rparr>)) = ''Overdue 3 days''
   \<and> label (getTaskStatusInfo (scenario_task \<lparr> consecutive_missed_days := 2 \<rparr>)) = ''Carried 2 days''
   \<and> label (getTaskStatusInfo (scenario_task \<lparr> consecutive_missed_days := 1 \<rparr>)) = ''Carried 1 day''
   \<and> label (getTaskStatusInfo scenario_task) = ''Pending''"
  using getTaskStatusInfo_boundaries [of "scenario_task \<lparr> status := ''completed'', consecutive_missed_days := 5 \<rparr>"]
    getTaskStatusInfo_boundaries [of "scenario_task \<lparr> consecutive_missed_days := 3 \<rparr>"]
    getTaskStatusInfo_boundaries [of "scenario_task \<lparr> consecutive_missed_days := 2 \<rparr>"]
    getTaskStatusInfo_boundaries [of "scenario_task \<lparr> consecutive_missed_days := 1 \<rparr>"]
    getTaskStatusInfo_boundaries [of scenario_task]
  by (simp add: scenario_task_def show_int_3)

subsection \<open>Duration\<close>

lemma digit_char_not_h: "CHR ''h'' \<noteq> digit_char d"
  by (simp add: digit_char_def)

lemma show_digits_no_h: "CHR ''h'' \<notin> set (show_digits n)"
proof (induction n rule: show_digits.induct)
  case (1 n)
  show ?case
  proof (cases "n < 10")
    case True
    then show ?thesis
      by (subst show_digits.simps) (simp add: digit_char_not_h)
  next
    case False
    with "1.IH" show ?thesis
      by (subst show_digits.simps) (simp add: digit_char_not_h)
  qed
qed

lemma formatDuration_75: "formatDuration 75 = ''1h 15m''"
  by code_simp

lemma scenario_C_minutes:
  "(utc_instant 2025 1 10 10 15 0 - utc_instant 2025 1 10 9 0 0) div ms_per_minute = 75"
  by code_simp

lemma scenario_C_order: "\<not> utc_instant 2025 1 10 10 15 0 < utc_instant 2025 1 10 9 0 0"
  by code_simp

text \<open>
  Claim C6. The duration of a task is the floor of the elapsed seconds divided by 60, in
  minutes; it does not depend on the timezone; it is not negative when the completion is
  not before the start. From 2025-01-10T09:00:00Z to 2025-01-10T10:15:00Z it is 75
  minutes, which \<open>formatDuration\<close> renders as \<open>1h 15m\<close>; below 60 minutes only minutes
  are rendered.
\<close>

theorem calculateTaskDuration_whole_minutes:
  "(startInstant \<le> endInstant \<longrightarrow>
      calculateTaskDuration startInstant endInstant tz
        = Inr ((endInstant - startInstant) div 1000 div 60)
      \<and> 0 \<le> (endInstant - startInstant) div 1000 div 60)
   \<and> calculateTaskDuration startInstant endInstant tz
       = calculateTaskDuration startInstant endInstant tz'
   \<and> calculateTaskDuration (utc_instant 2025 1 10 9 0 0) (utc_instant 2025 1 10 10 15 0) tz
       = Inr 75
   \<and> formatDuration 75 = ''1h 15m''
   \<and> (0 \<le> m \<and> m < 60 \<longrightarrow>
        formatDuration m = show_int m @ ''m'' \<and> CHR ''h'' \<notin> set (formatDuration m))"
proof -
  have split: "(endInstant - startInstant) div ms_per_minute
               = (endInstant - startInstant) div 1000 div 60"
    using zdiv_zmult2_eq [of 60 "endInstant - startInstant" 1000]
    by (simp add: ms_per_minute_def)
  have a: "startInstant \<le> endInstant \<longrightarrow>
      calculateTaskDuration startInstant endInstant tz
        = Inr ((endInstant - startInstant) div 1000 div 60)
      \<and> 0 \<le> (endInstant - startInstant) div 1000 div 60"
    by (simp add: calculateTaskDuration_def split pos_imp_zdiv_nonneg_iff)
  have b: "calculateTaskDuration startInstant endInstant tz
       = calculateTaskDuration startInstant endInstant tz'"
    by (simp add: calculateTaskDuration_def)
  have c: "calculateTaskDuration (utc_instant 2025 1 10 9 0 0) (utc_instant 2025 1 10 10 15 0) tz
       = Inr 75"
    by (simp add: calculateTaskDuration_def scenario_C_minutes scenario_C_order)
  have d: "0 \<le> m \<and> m < 60 \<longrightarrow>
        formatDuration m = show_int m @ ''m'' \<and> CHR ''h'' \<notin> set (formatDuration m)"
    by (simp add: formatDuration_def show_int_def show_digits_no_h)
  from a b c formatDuration_75 d show ?thesis
    by blast
qed

theorem calculateTaskDuration_whole_minutes_witness:
  "calculateTaskDuration (utc_instant 2025 1 10 9 0 0) (utc_instant 2025 1 10 9 45 59)
     ''Asia/Kolkata'' = Inr 45
   \<and> formatDuration 45 = ''45m''"
proof -
  have h: "utc_instant 2025 1 10 9 0 0 \<le> utc_instant 2025 1 10 9 45 59"
    by code_simp
  have v: "(utc_instant 2025 1 10 9 45 59 - utc_instant 2025 1 10 9 0 0) div 1000 div 60 = 45"
    by code_simp
  have m: "(0::int) \<le> 45 \<and> (45::int) < 60"
    by simp
  have s: "show_int 45 = ''45''"
    by code_simp
  from calculateTaskDuration_whole_minutes [of "utc_instant 2025 1 10 9 0 0"
      "utc_instant 2025 1 10 9 45 59" "''Asia/Kolkata''" "''UTC''" 45] h m
  have "calculateTaskDuration (utc_instant 2025 1 10 9 0 0) (utc_instant 2025 1 10 9 45 59)
          ''Asia/Kolkata''
        = Inr ((utc_instant 2025 1 10 9 45 59 - utc_instant 2025 1 10 9 0 0) div 1000 div 60)
      \<and> formatDuration 45 = show_int 45 @ ''m''"
    by blast
  then show ?thesis
    by (simp add: v s)
qed

subsection \<open>Completion\<close>

text \<open>
  Claim C7. When the completion instant is before the task's start instant, the duration
  computation fails with a ValidationError, \<open>handleComplete\<close> ends with that error and
  the table is as it was: no row is changed.
\<close>

theorem handleComplete_rejects_early_completion:
  assumes "localToUtcISO (zone_offset env) (clock env) completionTime tz < start_time task"
  shows "\<exists>msg. handleComplete env tz task completionTime completionImage rows
               = (rows, Inl (ValidationError msg))"
  using assms by (simp add: handleComplete_def calculateTaskDuration_def Let_def)

theorem handleComplete_rejects_early_completion_witness:
  "localToUtcISO sample_rules (clock scenario_backend)
      \<lparr> input_date = civil_date 2025 1 10, input_minutes = 18 * 60 \<rparr> ''Asia/Kolkata''
     = utc_instant 2025 1 10 12 30 0
   \<and> (\<exists>msg. handleComplete scenario_backend ''Asia/Kolkata'' scenario_task
               \<lparr> input_date = civil_date 2025 1 10, input_minutes = 18 * 60 \<rparr>
               (Some ''photo.jpg'') scenario_rows
             = (scenario_rows, Inl (ValidationError msg)))"
proof -
  have v: "localToUtcISO sample_rules (clock scenario_backend)
      \<lparr> input_date = civil_date 2025 1 10, input_minutes = 18 * 60 \<rparr> ''Asia/Kolkata''
     = utc_instant 2025 1 10 12 30 0"
    by code_simp
  have h: "localToUtcISO (zone_offset scenario_backend) (clock scenario_backend)
      \<lparr> input_date = civil_date 2025 1 10, input_minutes = 18 * 60 \<rparr> ''Asia/Kolkata''
     < start_time scenario_task"
    by code_simp
  from handleComplete_rejects_early_completion [OF h] v show ?thesis
    by blast
qed

text \<open>
  Claim C10. When a completion photo is supplied and its upload fails,
  \<open>handleComplete\<close> ends with an error before any update: the table is as it was, so no
  task is marked completed and no status, \<open>end_time\<close>, \<open>total_time_minutes\<close> or
  \<open>image_path\<close> changes. For a signed-in user and a valid completion time the error is
  the upload's.
\<close>

theorem handleComplete_upload_failure:
  assumes "completionImage = Some name" and "upload_error env = Some e"
  shows "fst (handleComplete env tz task completionTime completionImage rows) = rows
       \<and> (\<exists>e'. snd (handleComplete env tz task completionTime completionImage rows) = Inl e')
       \<and> (auth_user env \<noteq> None
            \<and> calculateTaskDuration (start_time task)
                  (localToUtcISO (zone_offset env) (clock env) completionTime tz) tz = Inr d
          \<longrightarrow> snd (handleComplete env tz task completionTime completionImage rows) = Inl e)"
  using assms
  by (auto simp: handleComplete_def uploadCompletionImage_def Let_def
      split: sum.splits option.splits)

theorem handleComplete_upload_failure_witness:
  "handleComplete (scenario_backend \<lparr> upload_error := Some (UploadError ''storage unavailable'') \<rparr>)
      ''Asia/Kolkata'' (scenario_rows ! 1)
      \<lparr> input_date = civil_date 2025 1 13, input_minutes = 8 * 60 + 15 \<rparr>
      (Some ''photo.jpg'') scenario_rows
   = (scenario_rows, Inl (UploadError ''storage unavailable''))"
proof -
  have h: "upload_error (scenario_backend \<lparr> upload_error := Some (UploadError ''storage unavailable'') \<rparr>)
           = Some (UploadError ''storage unavailable'')"
    by simp
  have a: "auth_user (scenario_backend \<lparr> upload_error := Some (UploadError ''storage unavailable'') \<rparr>)
           \<noteq> None"
    by (simp add: scenario_backend_def)
  have o: "calculateTaskDuration (start_time (scenario_rows ! 1))
             (localToUtcISO
                (zone_offset (scenario_backend \<lparr> upload_error := Some (UploadError ''storage unavailable'') \<rparr>))
                (clock (scenario_backend \<lparr> upload_error := Some (UploadError ''storage unavailable'') \<rparr>))
                \<lparr> input_date = civil_date 2025 1 13, input_minutes = 8 * 60 + 15 \<rparr> ''Asia/Kolkata'')
             ''Asia/Kolkata'' = Inr 45"
    by code_simp
  from handleComplete_upload_failure [OF refl h,
      of "''Asia/Kolkata''" "scenario_rows ! 1"
         "\<lparr> input_date = civil_date 2025 1 13, input_minutes = 8 * 60 + 15 \<rparr>" "''photo.jpg''"
         scenario_rows 45] a o
  show ?thesis
    by (metis prod.collapse)
qed

end
